theory Spec2Isabelle
  imports Complex_Main "HOL-Library.Word"
begin

section \<open>The YouTube downloader script as a state transformer\<close>

text \<open>
  The program is one Streamlit script, \<^verbatim>\<open>youtube_downloader_app.py\<close>. Streamlit runs
  the whole script again on every interaction; what survives from one run to the next
  is \<^verbatim>\<open>st.session_state\<close>. A run is modelled as a function from the session state
  before the run, the contents of the URL box and the two button values to the session
  state after the run, the page that the run rendered and a log of the calls into the
  pytube library.
\<close>

subsection \<open>Python strings, bytes and exceptions\<close>

text \<open>
  A Python \<^verbatim>\<open>str\<close> is a sequence of Unicode code points. \<open>ascii\<close> turns an Isabelle
  string literal into the code points of its characters.
\<close>

type_synonym pystr = "nat list"

type_synonym byte = "8 word"

definition ascii :: "string \<Rightarrow> pystr" where
  "ascii cs = map of_char cs"

text \<open>
  The Unicode character database is not part of the script. Its three tables that the
  script consults beyond the ASCII range are parameters: which code points
  \<^verbatim>\<open>str.isalnum\<close> accepts, which ones \<^verbatim>\<open>str.rstrip\<close> regards as white space, and
  the upper-case mapping of \<^verbatim>\<open>str.upper\<close> (one code point may map to several).
\<close>

record unicode_db =
  alnum_tab :: "nat \<Rightarrow> bool"
  space_tab :: "nat \<Rightarrow> bool"
  upper_tab :: "nat \<Rightarrow> nat list"

definition isalnum :: "unicode_db \<Rightarrow> nat \<Rightarrow> bool" where
  "isalnum db c =
     (if c < 128
      then (48 \<le> c \<and> c \<le> 57) \<or> (65 \<le> c \<and> c \<le> 90) \<or> (97 \<le> c \<and> c \<le> 122)
      else alnum_tab db c)"

definition isspace :: "unicode_db \<Rightarrow> nat \<Rightarrow> bool" where
  "isspace db c =
     (if c < 128
      then (9 \<le> c \<and> c \<le> 13) \<or> (28 \<le> c \<and> c \<le> 32)
      else space_tab db c)"

definition rstrip :: "unicode_db \<Rightarrow> pystr \<Rightarrow> pystr" where
  "rstrip db s = rev (dropWhile (isspace db) (rev s))"

definition upper :: "unicode_db \<Rightarrow> pystr \<Rightarrow> pystr" where
  "upper db s =
     concat (map (\<lambda>c. if c < 128 then [if 97 \<le> c \<and> c \<le> 122 then c - 32 else c]
                       else upper_tab db c) s)"

text \<open>Decimal rendering of an integer, as an f-string does it for an \<^verbatim>\<open>int\<close>.\<close>

fun str_nat :: "nat \<Rightarrow> pystr" where
  "str_nat n = (if n < 10 then [48 + n] else str_nat (n div 10) @ [48 + n mod 10])"

declare str_nat.simps [simp del]

definition str_int :: "int \<Rightarrow> pystr" where
  "str_int i = (if i < 0 then 45 # str_nat (nat (- i)) else str_nat (nat i))"

text \<open>
  Exceptions, all of them instances of \<^verbatim>\<open>Exception\<close>: the one that the script's own
  division can raise, and whatever pytube raises, of which the script uses only the
  text \<^verbatim>\<open>str(e)\<close>.
\<close>

datatype exn = ZeroDivisionError | LibraryError pystr

fun str_exn :: "exn \<Rightarrow> pystr" where
  "str_exn ZeroDivisionError = ascii ''division by zero''"
| "str_exn (LibraryError msg) = msg"

subsection \<open>The pytube library\<close>

text \<open>
  What \<^verbatim>\<open>stream_to_buffer\<close> does with one stream is fixed by the network, not by the
  script: it hands chunks to the progress callback, each with the number of bytes that
  remain, may signal completion, and may raise.
\<close>

datatype transfer_event = Chunk "byte list" int | Complete | Fail exn

record stream =
  is_progressive :: bool
  includes_audio_track :: bool
  includes_video_track :: bool
  subtype :: pystr
  resolution :: "nat option"
  abr :: "nat option"
  filesize :: int
  transfer :: "transfer_event list"

text \<open>
  A resolved video: \<^verbatim>\<open>yt.title\<close>, \<^verbatim>\<open>yt.length\<close>, and \<^verbatim>\<open>yt.streams\<close>, which fetches
  the stream list when it is read and may raise.
\<close>

record video =
  title :: pystr
  length_seconds :: int
  streams :: "exn + stream list"

text \<open>
  The environment of a run. \<open>resolve\<close> stands for \<^verbatim>\<open>YouTube(url, ...)\<close> followed by the
  reads of \<^verbatim>\<open>yt.title\<close> and \<^verbatim>\<open>yt.length\<close> on lines 96 to 103: any of them may raise,
  and every one of them comes before the first assignment after the reset, so one
  result stands for all three. \<open>fround\<close> is the rounding of a real number to the
  nearest \<^verbatim>\<open>float\<close>.
\<close>

record env =
  ucd :: unicode_db
  fround :: "real \<Rightarrow> real"
  resolve :: "pystr \<Rightarrow> exn + video"

text \<open>
  Modelled from the spec: pytube's \<^verbatim>\<open>StreamQuery\<close> is not in the repository. The spec
  (section 4.1, step 3, and section 6) says that the video query keeps the progressive
  streams of the fixed container format and ranks them by descending resolution, that
  the audio query keeps the audio-only streams and ranks them by descending average
  bitrate, and that the top-ranked match is picked. \<open>order_by\<close> drops the streams that
  lack the attribute and sorts ascending, \<open>desc\<close> reverses, \<open>first\<close> is \<^verbatim>\<open>None\<close> on an
  empty result.
\<close>

definition filter_progressive_mp4 :: "stream list \<Rightarrow> stream list" where
  "filter_progressive_mp4 ss =
     filter (\<lambda>s. is_progressive s \<and> subtype s = ascii ''mp4'') ss"

definition filter_only_audio :: "stream list \<Rightarrow> stream list" where
  "filter_only_audio ss =
     filter (\<lambda>s. includes_audio_track s \<and> \<not> includes_video_track s) ss"

definition order_by :: "(stream \<Rightarrow> nat option) \<Rightarrow> stream list \<Rightarrow> stream list" where
  "order_by attr ss = sort_key (\<lambda>s. the (attr s)) (filter (\<lambda>s. attr s \<noteq> None) ss)"

definition desc :: "stream list \<Rightarrow> stream list" where
  "desc ss = rev ss"

definition first :: "stream list \<Rightarrow> stream option" where
  "first ss = (case ss of [] \<Rightarrow> None | s # _ \<Rightarrow> Some s)"

text \<open>The two queries of the script, on line 114 and on line 123.\<close>

definition query_mp4 :: "stream list \<Rightarrow> stream option" where
  "query_mp4 ss = first (desc (order_by resolution (filter_progressive_mp4 ss)))"

definition query_audio :: "stream list \<Rightarrow> stream option" where
  "query_audio ss = first (desc (order_by abr (filter_only_audio ss)))"

subsection \<open>Session state and page\<close>

text \<open>
  \<^verbatim>\<open>st.session_state\<close> after lines 29 to 42 have given every key its default. The key
  \<^verbatim>\<open>download_type\<close> has no default: it does not exist before the first click. The
  script reads it only inside an attempt, after a button has stored \<^verbatim>\<open>"mp4"\<close> or
  \<^verbatim>\<open>"mp3"\<close> in it in the same run, so the model keeps a plain string that starts
  empty.
\<close>

record session =
  download_progress :: real
  download_complete :: bool
  video_info :: "pystr option"
  download_error :: "pystr option"
  download_data :: "byte list option"
  download_filename :: "pystr option"
  download_mime :: "pystr option"
  download_type :: pystr

definition initial_session :: session where
  "initial_session =
     \<lparr>download_progress = 0, download_complete = False, video_info = None,
      download_error = None, download_data = None, download_filename = None,
      download_mime = None, download_type = []\<rparr>"

text \<open>
  What one of the four \<^verbatim>\<open>st.empty()\<close> placeholders shows at the end of a run. A
  spinner lives only as long as its \<^verbatim>\<open>with\<close> block; what stays is the container it
  was in.
\<close>

datatype element =
    Container
  | ErrorBox pystr
  | SuccessBox pystr
  | Markdown pystr
  | ProgressBar real
  | DownloadButton pystr "byte list" pystr "pystr option"

record page =
  warnings :: "pystr list"
  status_placeholder :: "element option"
  progress_placeholder :: "element option"
  info_placeholder :: "element option"
  download_button_placeholder :: "element option"

definition empty_page :: page where
  "empty_page =
     \<lparr>warnings = [], status_placeholder = None, progress_placeholder = None,
      info_placeholder = None, download_button_placeholder = None\<rparr>"

text \<open>
  The log of a run is not in the script: it records, in the order in which the script
  does them, the two calls into pytube, each with the session state at the moment of
  the call, and the renderings of the info text (lines 105 and 189).
\<close>

datatype call =
    CallYouTube pystr session
  | CallMarkdown pystr
  | CallStreamToBuffer stream session

record world =
  sess :: session
  ui :: page
  calls :: "call list"

subsection \<open>The callbacks (lines 9 to 19)\<close>

text \<open>
  \<^verbatim>\<open>bytes_downloaded / total_size\<close> is Python's true division of two integers: it
  raises \<^verbatim>\<open>ZeroDivisionError\<close> when \<^verbatim>\<open>total_size\<close> is 0 and otherwise yields the
  quotient rounded to a float; the product with 100 is rounded again.
\<close>

definition progress_callback ::
  "(real \<Rightarrow> real) \<Rightarrow> stream \<Rightarrow> int \<Rightarrow> session \<Rightarrow> exn + session" where
  "progress_callback rnd strm bytes_remaining s =
     (let total_size = filesize strm;
          bytes_downloaded = total_size - bytes_remaining
      in if total_size = 0 then Inl ZeroDivisionError
         else let percentage = rnd (rnd (of_int bytes_downloaded / of_int total_size) * 100)
              in Inr (s\<lparr>download_progress := percentage\<rparr>))"

definition complete_callback :: "session \<Rightarrow> session" where
  "complete_callback s = s\<lparr>download_complete := True\<rparr>"

text \<open>
  Modelled from the spec: \<^verbatim>\<open>Stream.stream_to_buffer\<close> is pytube's. The spec (section
  6) says that it copies the stream's bytes into the sink, invokes the progress
  callback zero or more times and the completion callback if the transport signals
  completion, and may raise. An exception of the progress callback leaves through it.
  The result is the exception, if any, the buffer and the session state.
\<close>

fun stream_to_buffer ::
  "(real \<Rightarrow> real) \<Rightarrow> stream \<Rightarrow> transfer_event list \<Rightarrow> byte list \<Rightarrow> session
     \<Rightarrow> exn option \<times> byte list \<times> session" where
  "stream_to_buffer rnd strm [] buf s = (None, buf, s)"
| "stream_to_buffer rnd strm (Chunk c r # es) buf s =
     (case progress_callback rnd strm r s of
        Inl e \<Rightarrow> (Some e, buf @ c, s)
      | Inr s' \<Rightarrow> stream_to_buffer rnd strm es (buf @ c) s')"
| "stream_to_buffer rnd strm (Complete # es) buf s =
     stream_to_buffer rnd strm es buf (complete_callback s)"
| "stream_to_buffer rnd strm (Fail e # es) buf s = (Some e, buf, s)"

text \<open>
  Modelled from the spec: the progress notifications of a transfer. The spec (sections 2
  and 6) has the transfer invoke the progress callback as bytes arrive, with the number
  of bytes done and the total. So a notification follows a chunk of at least one byte,
  and the count of remaining bytes that it carries is the file size less the bytes
  received so far, that chunk included. Here \<open>buf\<close> is the buffer before the chunk.
\<close>

definition delivered_notification :: "stream \<Rightarrow> byte list \<Rightarrow> byte list \<Rightarrow> int \<Rightarrow> bool" where
  "delivered_notification strm buf chunk bytes_remaining =
     (chunk \<noteq> [] \<and> bytes_remaining = filesize strm - int (length (buf @ chunk)))"

subsection \<open>One download attempt (lines 77 to 173)\<close>

text \<open>Lines 79 to 90: the reset of the session state and of the placeholders.\<close>

definition reset_session :: "session \<Rightarrow> session" where
  "reset_session s =
     s\<lparr>download_progress := 0, download_complete := False, video_info := None,
       download_error := None, download_data := None, download_filename := None,
       download_mime := None\<rparr>"

definition reset_page :: "page \<Rightarrow> page" where
  "reset_page p =
     p\<lparr>status_placeholder := None, progress_placeholder := None,
       info_placeholder := None, download_button_placeholder := None\<rparr>"

text \<open>Line 102.\<close>

definition sanitize_title :: "unicode_db \<Rightarrow> pystr \<Rightarrow> pystr" where
  "sanitize_title db t =
     rstrip db (filter (\<lambda>c. isalnum db c \<or> c \<in> set (ascii '' ._-'')) t)"

text \<open>Line 103.\<close>

definition info_text :: "video \<Rightarrow> pystr" where
  "info_text yt =
     ascii ''**Title:** '' @ title yt @ [10] @ ascii ''**Length:** ''
       @ str_int (length_seconds yt div 60) @ ascii ''m ''
       @ str_int (length_seconds yt mod 60) @ ascii ''s''"

text \<open>
  Lines 94 to 105. The result is the exception that left the block, or the resolved
  video and the sanitized title.
\<close>

definition fetch_info :: "env \<Rightarrow> pystr \<Rightarrow> world \<Rightarrow> (exn + video \<times> pystr) \<times> world" where
  "fetch_info E url w =
     (let w1 = w\<lparr>ui := (ui w)\<lparr>status_placeholder := Some Container\<rparr>,
                  calls := calls w @ [CallYouTube url (sess w)]\<rparr>
      in case resolve E url of
           Inl e \<Rightarrow> (Inl e, w1)
         | Inr yt \<Rightarrow>
             let sanitized_title = sanitize_title (ucd E) (title yt);
                 w2 = w1\<lparr>sess := (sess w1)\<lparr>video_info := Some (info_text yt)\<rparr>\<rparr>;
                 w3 = w2\<lparr>ui := (ui w2)\<lparr>info_placeholder := Some (Markdown (info_text yt))\<rparr>,
                         calls := calls w2 @ [CallMarkdown (info_text yt)]\<rparr>
             in (Inr (yt, sanitized_title), w3))"

text \<open>
  Lines 107 to 128. The stream query comes first in either branch and may raise; the
  file name and the MIME type are stored right after it, whatever it found.
\<close>

definition get_stream ::
  "video \<Rightarrow> pystr \<Rightarrow> world \<Rightarrow> (exn + stream option) \<times> world" where
  "get_stream yt sanitized_title w =
     (if download_type (sess w) = ascii ''mp4'' then
        let w1 = w\<lparr>ui := (ui w)\<lparr>status_placeholder := Some Container\<rparr>\<rparr>
        in case streams yt of
             Inl e \<Rightarrow> (Inl e, w1)
           | Inr ss \<Rightarrow>
               let strm = query_mp4 ss;
                   file_extension = ascii ''.mp4'';
                   mime_type = ascii ''video/mp4''
               in (Inr strm,
                   w1\<lparr>sess := (sess w1)\<lparr>download_filename := Some (sanitized_title @ file_extension),
                                         download_mime := Some mime_type\<rparr>\<rparr>)
      else if download_type (sess w) = ascii ''mp3'' then
        let w1 = w\<lparr>ui := (ui w)\<lparr>status_placeholder := Some Container\<rparr>\<rparr>
        in case streams yt of
             Inl e \<Rightarrow> (Inl e, w1)
           | Inr ss \<Rightarrow>
               let strm = query_audio ss;
                   file_extension = ascii ''.mp3'';
                   mime_type = ascii ''audio/mp3''
               in (Inr strm,
                   w1\<lparr>sess := (sess w1)\<lparr>download_filename := Some (sanitized_title @ file_extension),
                                         download_mime := Some mime_type\<rparr>\<rparr>)
      else (Inr None, w))"

text \<open>
  Lines 130 to 162. A pytube \<^verbatim>\<open>Stream\<close> object is always truthy, so \<^verbatim>\<open>not stream\<close>
  holds exactly for \<^verbatim>\<open>None\<close>. Both arms of the final test on \<^verbatim>\<open>download_complete\<close>
  empty the progress placeholder and differ only in the text of the success box.
\<close>

definition download_stream :: "env \<Rightarrow> stream option \<Rightarrow> world \<Rightarrow> exn option \<times> world" where
  "download_stream E strm w =
     (case strm of
        None \<Rightarrow>
          let msg = ascii ''No suitable '' @ upper (ucd E) (download_type (sess w))
                      @ ascii '' stream found.'';
              w1 = w\<lparr>sess := (sess w)\<lparr>download_error := Some msg\<rparr>\<rparr>
          in (None, w1\<lparr>ui := (ui w1)\<lparr>status_placeholder :=
                          map_option ErrorBox (download_error (sess w1))\<rparr>\<rparr>)
      | Some st \<Rightarrow>
          let w1 = w\<lparr>ui := (ui w)\<lparr>status_placeholder := Some Container,
                                   progress_placeholder :=
                                     Some (ProgressBar (download_progress (sess w) / 100))\<rparr>,
                     calls := calls w @ [CallStreamToBuffer st (sess w)]\<rparr>
          in (case stream_to_buffer (fround E) st (transfer st) [] (sess w1) of
               (Some e, buf, s') \<Rightarrow> (Some e, w1\<lparr>sess := s'\<rparr>)
             | (None, buf, s') \<Rightarrow>
                 let w2 = w1\<lparr>sess := s'\<lparr>download_data := Some buf\<rparr>\<rparr>
                 in if download_complete (sess w2)
                    then (None, w2\<lparr>ui := (ui w2)\<lparr>status_placeholder :=
                                           Some (SuccessBox (ascii ''Download Ready!'')),
                                         progress_placeholder := None\<rparr>\<rparr>)
                    else (None, w2\<lparr>ui := (ui w2)\<lparr>status_placeholder :=
                                           Some (SuccessBox (ascii ''Processing Complete!'')),
                                         progress_placeholder := None\<rparr>\<rparr>)))"

text \<open>Lines 93 to 162: the body of the \<^verbatim>\<open>try\<close>.\<close>

definition try_block :: "env \<Rightarrow> pystr \<Rightarrow> world \<Rightarrow> exn option \<times> world" where
  "try_block E url w =
     (case fetch_info E url w of
        (Inl e, w1) \<Rightarrow> (Some e, w1)
      | (Inr (yt, sanitized_title), w1) \<Rightarrow>
          (case get_stream yt sanitized_title w1 of
             (Inl e, w2) \<Rightarrow> (Some e, w2)
           | (Inr strm, w2) \<Rightarrow> download_stream E strm w2))"

text \<open>Lines 165 to 173: the handler of \<^verbatim>\<open>except Exception as e\<close>.\<close>

definition except_handler :: "exn \<Rightarrow> world \<Rightarrow> world" where
  "except_handler e w =
     (let w1 = w\<lparr>sess := (sess w)\<lparr>download_error :=
                    Some (ascii ''An error occurred: '' @ str_exn e)\<rparr>\<rparr>;
          w2 = w1\<lparr>ui := (ui w1)\<lparr>status_placeholder :=
                    map_option ErrorBox (download_error (sess w1))\<rparr>\<rparr>;
          w3 = w2\<lparr>sess := (sess w2)\<lparr>download_data := None, video_info := None\<rparr>\<rparr>
      in w3\<lparr>ui := (ui w3)\<lparr>progress_placeholder := None, info_placeholder := None,
                           download_button_placeholder := None\<rparr>\<rparr>)"

text \<open>Lines 77 to 173: reset, \<^verbatim>\<open>try\<close>, \<^verbatim>\<open>except\<close>.\<close>

definition download_attempt :: "env \<Rightarrow> pystr \<Rightarrow> world \<Rightarrow> world" where
  "download_attempt E url w =
     (let w0 = w\<lparr>sess := reset_session (sess w), ui := reset_page (ui w)\<rparr>
      in case try_block E url w0 of
           (None, w1) \<Rightarrow> w1
         | (Some e, w1) \<Rightarrow> except_handler e w1)"

subsection \<open>One run of the script\<close>

text \<open>
  Lines 54 to 68. A Python string is truthy when it is not empty. \<open>clicked\<close> is the
  value of \<^verbatim>\<open>st.button\<close>; the result is the new world and \<^verbatim>\<open>download_triggered\<close>.
\<close>

definition button_column :: "bool \<Rightarrow> pystr \<Rightarrow> pystr \<Rightarrow> world \<times> bool \<Rightarrow> world \<times> bool" where
  "button_column clicked url kind wt =
     (case wt of (w, download_triggered) \<Rightarrow>
        if clicked then
          if url \<noteq> [] then (w\<lparr>sess := (sess w)\<lparr>download_type := kind\<rparr>\<rparr>, True)
          else (w\<lparr>ui := (ui w)\<lparr>warnings := warnings (ui w)
                             @ [ascii ''Please enter a YouTube URL.'']\<rparr>\<rparr>, download_triggered)
        else (w, download_triggered))"

text \<open>
  Lines 177 to 192. Bytes and strings are truthy when they are present and not empty.
  The three tests read the state only.
\<close>

definition truthy :: "'a list option \<Rightarrow> bool" where
  "truthy v = (case v of None \<Rightarrow> False | Some xs \<Rightarrow> xs \<noteq> [])"

definition render_state :: "bool \<Rightarrow> world \<Rightarrow> world" where
  "render_state download_triggered w =
     (let s = sess w;
          p1 = (if truthy (download_data s) \<and> truthy (download_filename s)
                then (ui w)\<lparr>download_button_placeholder :=
                        Some (DownloadButton
                                (ascii ''Click to Download '' @ the (download_filename s))
                                (the (download_data s)) (the (download_filename s))
                                (download_mime s))\<rparr>
                else ui w);
          shows_info = (truthy (video_info s) \<and> \<not> download_triggered
                          \<and> \<not> truthy (download_data s));
          p2 = (if shows_info
                then p1\<lparr>info_placeholder := Some (Markdown (the (video_info s)))\<rparr>
                else p1);
          p3 = (if truthy (download_error s) \<and> \<not> download_triggered
                then p2\<lparr>status_placeholder := Some (ErrorBox (the (download_error s)))\<rparr>
                else p2)
      in w\<lparr>ui := p3,
           calls := calls w @ (if shows_info then [CallMarkdown (the (video_info s))] else [])\<rparr>)"

text \<open>
  The whole script: a fresh page, the two buttons, the attempt if one was triggered, the
  final rendering.
\<close>

definition script_run :: "env \<Rightarrow> pystr \<Rightarrow> bool \<Rightarrow> bool \<Rightarrow> session \<Rightarrow> world" where
  "script_run E url mp4_clicked mp3_clicked s =
     (let w0 = \<lparr>sess = s, ui = empty_page, calls = []\<rparr>;
          (w1, download_triggered) =
             button_column mp3_clicked url (ascii ''mp3'')
               (button_column mp4_clicked url (ascii ''mp4'') (w0, False));
          w2 = (if download_triggered then download_attempt E url w1 else w1)
      in render_state download_triggered w2)"

text \<open>The session states that a sequence of runs can reach, in any environments.\<close>

inductive reachable :: "session \<Rightarrow> bool" where
  start: "reachable initial_session"
| run: "reachable s \<Longrightarrow> reachable (sess (script_run E url mp4_clicked mp3_clicked s))"

text \<open>
  The value that the click handlers leave in \<^verbatim>\<open>download_type\<close>: the audio button is
  tested second (lines 62 to 68), so it wins if both values are true.
\<close>

definition clicked_kind :: "bool \<Rightarrow> pystr" where
  "clicked_kind mp3_clicked = (if mp3_clicked then ascii ''mp3'' else ascii ''mp4'')"

text \<open>
  The world in which an attempt starts: the session state as the click handler left it,
  the fresh page and the empty log.
\<close>

definition attempt_world :: "session \<Rightarrow> bool \<Rightarrow> world" where
  "attempt_world s mp3_clicked =
     \<lparr>sess = s\<lparr>download_type := clicked_kind mp3_clicked\<rparr>, ui = empty_page, calls = []\<rparr>"

subsection \<open>Concrete environments\<close>

text \<open>
  A character database that knows no letter, digit or white space beyond ASCII, and a
  rounding to the nearest multiple of \<open>1/1024\<close>: like the rounding to the nearest float
  it is monotone and leaves 0, 1 and 100 as they are.
\<close>

definition demo_db :: unicode_db where
  "demo_db = \<lparr>alnum_tab = (\<lambda>c. False), space_tab = (\<lambda>c. False), upper_tab = (\<lambda>c. [c])\<rparr>"

definition demo_round :: "real \<Rightarrow> real" where
  "demo_round x = of_int (round (x * 1024)) / 1024"

text \<open>
  Four streams: a progressive mp4 stream at 720p that arrives in two chunks, an
  audio-only stream in a webm container, a progressive stream whose transfer breaks
  after the first chunk, and a progressive stream of no bytes at all.
\<close>

definition stream_720p :: stream where
  "stream_720p =
     \<lparr>is_progressive = True, includes_audio_track = True, includes_video_track = True,
      subtype = ascii ''mp4'', resolution = Some 720, abr = Some 96, filesize = 4,
      transfer = [Chunk [1, 2] 2, Chunk [3, 4] 0, Complete]\<rparr>"

definition stream_webm :: stream where
  "stream_webm =
     \<lparr>is_progressive = False, includes_audio_track = True, includes_video_track = False,
      subtype = ascii ''webm'', resolution = None, abr = Some 160, filesize = 3,
      transfer = [Chunk [7, 8, 9] 0, Complete]\<rparr>"

definition stream_broken :: stream where
  "stream_broken =
     \<lparr>is_progressive = True, includes_audio_track = True, includes_video_track = True,
      subtype = ascii ''mp4'', resolution = Some 360, abr = Some 96, filesize = 4,
      transfer = [Chunk [1, 2] 2, Fail (LibraryError (ascii ''timed out''))]\<rparr>"

definition stream_empty :: stream where
  "stream_empty =
     \<lparr>is_progressive = True, includes_audio_track = True, includes_video_track = True,
      subtype = ascii ''mp4'', resolution = Some 144, abr = Some 48, filesize = 0,
      transfer = [Complete]\<rparr>"

text \<open>
  The video of the spec's scenario A with a given stream list, and the environment in
  which every URL resolves to a given result.
\<close>

definition video_of :: "stream list \<Rightarrow> video" where
  "video_of ss = \<lparr>title = ascii ''Test: Video!'', length_seconds = 125, streams = Inr ss\<rparr>"

definition env_of :: "exn + video \<Rightarrow> env" where
  "env_of r = \<lparr>ucd = demo_db, fround = demo_round, resolve = (\<lambda>url. r)\<rparr>"

definition demo_url :: pystr where
  "demo_url = ascii ''https://youtu.be/abc''"

section \<open>Properties\<close>

subsection \<open>Auxiliary facts\<close>

lemma ascii_simps [simp]: "ascii [] = []" "ascii (c # cs) = of_char c # ascii cs"
  by (simp_all add: ascii_def)

lemmas attempt_defs = download_attempt_def try_block_def fetch_info_def get_stream_def
  download_stream_def except_handler_def reset_session_def

lemma rstrip_rstrip: "rstrip db (rstrip db s) = rstrip db s"
proof -
  have "dropWhile P (dropWhile P xs) = dropWhile P xs" for P :: "nat \<Rightarrow> bool" and xs
    by (induction xs) auto
  then show ?thesis by (simp add: rstrip_def)
qed

lemma filter_rstrip: "filter P (rstrip db s) = rstrip db s" if "\<forall>c\<in>set s. P c"
proof -
  have "set (rstrip db s) \<subseteq> set s"
    unfolding rstrip_def using set_dropWhileD by fastforce
  with that show ?thesis by (auto simp: filter_id_conv)
qed

text \<open>The transfer touches the progress and the completion flag and nothing else.\<close>

lemma stream_to_buffer_keeps:
  "stream_to_buffer rnd strm es buf s = (r, buf', s') \<Longrightarrow>
     video_info s' = video_info s \<and> download_error s' = download_error s \<and>
     download_data s' = download_data s \<and> download_filename s' = download_filename s \<and>
     download_mime s' = download_mime s \<and> download_type s' = download_type s"
proof (induction rnd strm es buf s rule: stream_to_buffer.induct)
  case (2 rnd strm c r es buf s)
  then show ?case
    by (auto simp: progress_callback_def Let_def split: if_splits)
qed (auto simp: complete_callback_def)

text \<open>Whether it raises does not depend on the session state or on the buffer.\<close>

lemma stream_to_buffer_outcome:
  "fst (stream_to_buffer rnd strm es buf s) = fst (stream_to_buffer rnd strm es buf' s')"
proof (induction es arbitrary: buf s buf' s')
  case Nil
  show ?case by simp
next
  case (Cons ev es)
  show ?case
  proof (cases ev)
    case (Chunk c r)
    then show ?thesis
      using Cons.IH by (auto simp: progress_callback_def Let_def)
  next
    case Complete
    then show ?thesis using Cons.IH by simp
  next
    case (Fail e)
    then show ?thesis by simp
  qed
qed

lemma sess_render_state: "sess (render_state t w) = sess w"
  by (simp add: render_state_def Let_def)

lemma calls_render_state: "calls (render_state True w) = calls w"
  by (simp add: render_state_def Let_def)

text \<open>The try block up to the test on line 130, when nothing raises before it.\<close>

lemma try_block_selected:
  assumes yt: "resolve E url = Inr yt" and ss: "streams yt = Inr ss"
    and kind: "download_type (sess w) = clicked_kind mp3_clicked"
  obtains w2 where
    "try_block E url w
       = download_stream E (if mp3_clicked then query_audio ss else query_mp4 ss) w2"
    "download_progress (sess w2) = download_progress (sess w)"
    "download_complete (sess w2) = download_complete (sess w)"
    "video_info (sess w2) = Some (info_text yt)"
    "download_error (sess w2) = download_error (sess w)"
    "download_data (sess w2) = download_data (sess w)"
    "download_filename (sess w2) = Some (sanitize_title (ucd E) (title yt)
        @ (if mp3_clicked then ascii ''.mp3'' else ascii ''.mp4''))"
    "download_mime (sess w2)
       = Some (if mp3_clicked then ascii ''audio/mp3'' else ascii ''video/mp4'')"
    "download_type (sess w2) = download_type (sess w)"
    "calls w2 = calls w @ [CallYouTube url (sess w), CallMarkdown (info_text yt)]"
    "download_button_placeholder (ui w2) = download_button_placeholder (ui w)"
proof -
  define san where "san = sanitize_title (ucd E) (title yt)"
  define w1 where "w1 = snd (fetch_info E url w)"
  define w2 where "w2 = snd (get_stream yt san w1)"
  have f: "fetch_info E url w = (Inr (yt, san), w1)"
    using yt by (simp add: w1_def san_def fetch_info_def Let_def)
  have w1: "sess w1 = (sess w)\<lparr>video_info := Some (info_text yt)\<rparr>"
    "calls w1 = calls w @ [CallYouTube url (sess w), CallMarkdown (info_text yt)]"
    "download_button_placeholder (ui w1) = download_button_placeholder (ui w)"
    using yt by (simp_all add: w1_def fetch_info_def Let_def)
  have g: "get_stream yt san w1
             = (Inr (if mp3_clicked then query_audio ss else query_mp4 ss), w2)"
    using ss kind by (simp add: w2_def get_stream_def clicked_kind_def w1 Let_def)
  have w2: "sess w2 = (sess w1)\<lparr>download_filename := Some (san
                @ (if mp3_clicked then ascii ''.mp3'' else ascii ''.mp4'')),
              download_mime := Some (if mp3_clicked then ascii ''audio/mp3''
                                     else ascii ''video/mp4'')\<rparr>"
    "calls w2 = calls w1"
    "download_button_placeholder (ui w2) = download_button_placeholder (ui w1)"
    using ss kind by (simp_all add: w2_def get_stream_def clicked_kind_def w1 Let_def)
  show thesis
  proof (rule that [of w2])
    show "try_block E url w
       = download_stream E (if mp3_clicked then query_audio ss else query_mp4 ss) w2"
      by (simp add: try_block_def f g)
  qed (simp_all add: w1 w2 san_def)
qed

lemma download_stream_transfer:
  assumes "stream_to_buffer (fround E) st (transfer st) [] (sess w) = (x, buf, s')"
  shows "fst (download_stream E (Some st) w) = x"
    and "calls (snd (download_stream E (Some st) w)) = calls w @ [CallStreamToBuffer st (sess w)]"
    and "sess (snd (download_stream E (Some st) w))
           = (case x of Some e \<Rightarrow> s' | None \<Rightarrow> s'\<lparr>download_data := Some buf\<rparr>)"
    and "download_button_placeholder (ui (snd (download_stream E (Some st) w)))
           = download_button_placeholder (ui w)"
  using assms by (simp_all add: download_stream_def Let_def split: option.splits)

text \<open>The five ways through an attempt.\<close>

lemma attempt_cases [case_names resolve_raised streams_raised no_stream transfer_raised success]:
  fixes E url w mp3_clicked
  defines "A \<equiv> download_attempt E url w"
    and "k \<equiv> clicked_kind mp3_clicked"
    and "ext \<equiv> if mp3_clicked then ascii ''.mp3'' else ascii ''.mp4''"
    and "mime \<equiv> if mp3_clicked then ascii ''audio/mp3'' else ascii ''video/mp4''"
    and "first_call \<equiv> CallYouTube url (reset_session (sess w))"
  assumes kind: "download_type (sess w) = k"
  obtains
    (resolve_raised) e where "resolve E url = Inl e"
      "sess A = \<lparr>download_progress = 0, download_complete = False, video_info = None,
         download_error = Some (ascii ''An error occurred: '' @ str_exn e),
         download_data = None, download_filename = None, download_mime = None,
         download_type = k\<rparr>"
      "calls A = calls w @ [first_call]"
  | (streams_raised) yt e where "resolve E url = Inr yt" "streams yt = Inl e"
      "sess A = \<lparr>download_progress = 0, download_complete = False, video_info = None,
         download_error = Some (ascii ''An error occurred: '' @ str_exn e),
         download_data = None, download_filename = None, download_mime = None,
         download_type = k\<rparr>"
      "calls A = calls w @ [first_call, CallMarkdown (info_text yt)]"
  | (no_stream) yt ss where "resolve E url = Inr yt" "streams yt = Inr ss"
      "(if mp3_clicked then query_audio ss else query_mp4 ss) = None"
      "sess A = \<lparr>download_progress = 0, download_complete = False,
         video_info = Some (info_text yt),
         download_error = Some (ascii ''No suitable '' @ upper (ucd E) k
                                  @ ascii '' stream found.''),
         download_data = None,
         download_filename = Some (sanitize_title (ucd E) (title yt) @ ext),
         download_mime = Some mime, download_type = k\<rparr>"
      "calls A = calls w @ [first_call, CallMarkdown (info_text yt)]"
  | (transfer_raised) yt ss st s1 e buf s' where "resolve E url = Inr yt" "streams yt = Inr ss"
      "(if mp3_clicked then query_audio ss else query_mp4 ss) = Some st"
      "stream_to_buffer (fround E) st (transfer st) [] s1 = (Some e, buf, s')"
      "sess A = \<lparr>download_progress = download_progress s',
         download_complete = download_complete s', video_info = None,
         download_error = Some (ascii ''An error occurred: '' @ str_exn e),
         download_data = None,
         download_filename = Some (sanitize_title (ucd E) (title yt) @ ext),
         download_mime = Some mime, download_type = k\<rparr>"
      "calls A = calls w @ [first_call, CallMarkdown (info_text yt), CallStreamToBuffer st s1]"
  | (success) yt ss st s1 buf s' where "resolve E url = Inr yt" "streams yt = Inr ss"
      "(if mp3_clicked then query_audio ss else query_mp4 ss) = Some st"
      "stream_to_buffer (fround E) st (transfer st) [] s1 = (None, buf, s')"
      "sess A = \<lparr>download_progress = download_progress s',
         download_complete = download_complete s', video_info = Some (info_text yt),
         download_error = None, download_data = Some buf,
         download_filename = Some (sanitize_title (ucd E) (title yt) @ ext),
         download_mime = Some mime, download_type = k\<rparr>"
      "calls A = calls w @ [first_call, CallMarkdown (info_text yt), CallStreamToBuffer st s1]"
proof (cases "resolve E url")
  case (Inl e)
  show ?thesis
  proof (rule resolve_raised [OF Inl])
    show "sess A = \<lparr>download_progress = 0, download_complete = False, video_info = None,
         download_error = Some (ascii ''An error occurred: '' @ str_exn e),
         download_data = None, download_filename = None, download_mime = None,
         download_type = k\<rparr>"
      using Inl kind unfolding A_def by (intro session.equality) (simp_all add: attempt_defs Let_def)
    show "calls A = calls w @ [first_call]"
      using Inl unfolding A_def first_call_def by (simp add: attempt_defs Let_def)
  qed
next
  case (Inr yt)
  note yt = Inr
  show ?thesis
  proof (cases "streams yt")
    case (Inl e)
    show ?thesis
    proof (rule streams_raised [OF yt Inl])
      show "sess A = \<lparr>download_progress = 0, download_complete = False, video_info = None,
         download_error = Some (ascii ''An error occurred: '' @ str_exn e),
         download_data = None, download_filename = None, download_mime = None,
         download_type = k\<rparr>"
        using yt Inl kind unfolding A_def k_def
        by (intro session.equality) (simp_all add: attempt_defs clicked_kind_def Let_def)
      show "calls A = calls w @ [first_call, CallMarkdown (info_text yt)]"
        using yt Inl kind unfolding A_def k_def first_call_def
        by (simp add: attempt_defs clicked_kind_def Let_def)
    qed
  next
    case (Inr ss)
    note ss = Inr
    define w0 where "w0 = w\<lparr>sess := reset_session (sess w), ui := reset_page (ui w)\<rparr>"
    have kind0: "download_type (sess w0) = clicked_kind mp3_clicked"
      using kind by (simp add: w0_def k_def reset_session_def)
    obtain w2 where tb: "try_block E url w0
         = download_stream E (if mp3_clicked then query_audio ss else query_mp4 ss) w2"
      and raw: "download_progress (sess w2) = download_progress (sess w0)"
        "download_complete (sess w2) = download_complete (sess w0)"
        "video_info (sess w2) = Some (info_text yt)"
        "download_error (sess w2) = download_error (sess w0)"
        "download_data (sess w2) = download_data (sess w0)"
        "download_filename (sess w2) = Some (sanitize_title (ucd E) (title yt)
            @ (if mp3_clicked then ascii ''.mp3'' else ascii ''.mp4''))"
        "download_mime (sess w2)
           = Some (if mp3_clicked then ascii ''audio/mp3'' else ascii ''video/mp4'')"
        "download_type (sess w2) = download_type (sess w0)"
        "calls w2 = calls w0 @ [CallYouTube url (sess w0), CallMarkdown (info_text yt)]"
        "download_button_placeholder (ui w2) = download_button_placeholder (ui w0)"
      by (rule try_block_selected [OF yt ss kind0])
    have s2: "download_progress (sess w2) = 0" "download_complete (sess w2) = False"
        "video_info (sess w2) = Some (info_text yt)"
        "download_error (sess w2) = None" "download_data (sess w2) = None"
        "download_filename (sess w2) = Some (sanitize_title (ucd E) (title yt) @ ext)"
        "download_mime (sess w2) = Some mime" "download_type (sess w2) = k"
      using kind unfolding raw ext_def mime_def by (simp_all add: w0_def reset_session_def)
    have calls2: "calls w2 = calls w @ [first_call, CallMarkdown (info_text yt)]"
      unfolding raw first_call_def by (simp add: w0_def)
    have A: "A = (case try_block E url w0 of (None, w1) \<Rightarrow> w1
                    | (Some e, w1) \<Rightarrow> except_handler e w1)"
      by (simp add: A_def download_attempt_def w0_def Let_def)
    show ?thesis
    proof (cases "if mp3_clicked then query_audio ss else query_mp4 ss")
      case None
      show ?thesis
      proof (rule no_stream [OF yt ss None])
        show "sess A = \<lparr>download_progress = 0, download_complete = False,
           video_info = Some (info_text yt),
           download_error = Some (ascii ''No suitable '' @ upper (ucd E) k
                                    @ ascii '' stream found.''),
           download_data = None,
           download_filename = Some (sanitize_title (ucd E) (title yt) @ ext),
           download_mime = Some mime, download_type = k\<rparr>"
          using kind unfolding A tb None
          by (intro session.equality)
            (simp_all add: download_stream_def s2 Let_def)
        show "calls A = calls w @ [first_call, CallMarkdown (info_text yt)]"
          unfolding A tb None
          by (simp add: download_stream_def Let_def calls2)
      qed
    next
      case (Some st)
      obtain x buf s' where
        stb: "stream_to_buffer (fround E) st (transfer st) [] (sess w2) = (x, buf, s')"
        using prod_cases3 by blast
      note keeps = stream_to_buffer_keeps [OF stb]
      note ds = download_stream_transfer [OF stb]
      obtain o1 w3 where res: "download_stream E (Some st) w2 = (o1, w3)"
        by (cases "download_stream E (Some st) w2")
      have o1: "o1 = x" and w3_calls: "calls w3 = calls w2 @ [CallStreamToBuffer st (sess w2)]"
        and w3_sess: "sess w3 = (case x of Some e \<Rightarrow> s' | None \<Rightarrow> s'\<lparr>download_data := Some buf\<rparr>)"
        using ds res by simp_all
      show ?thesis
      proof (cases x)
        case None
        show ?thesis
        proof (rule success [OF yt ss Some stb [unfolded None]])
          show "sess A = \<lparr>download_progress = download_progress s',
             download_complete = download_complete s', video_info = Some (info_text yt),
             download_error = None, download_data = Some buf,
             download_filename = Some (sanitize_title (ucd E) (title yt) @ ext),
             download_mime = Some mime, download_type = k\<rparr>"
            using keeps s2 unfolding A tb Some res o1 None
            by (intro session.equality) (simp_all add: w3_sess None)
          show "calls A = calls w @ [first_call, CallMarkdown (info_text yt),
                  CallStreamToBuffer st (sess w2)]"
            unfolding A tb Some res o1 None by (simp add: w3_calls calls2)
        qed
      next
        case (Some e)
        note x = Some
        show ?thesis
        proof (rule transfer_raised [OF yt ss \<open>(if mp3_clicked then query_audio ss else query_mp4 ss) = Some st\<close> stb [unfolded x]])
          show "sess A = \<lparr>download_progress = download_progress s',
             download_complete = download_complete s', video_info = None,
             download_error = Some (ascii ''An error occurred: '' @ str_exn e),
             download_data = None,
             download_filename = Some (sanitize_title (ucd E) (title yt) @ ext),
             download_mime = Some mime, download_type = k\<rparr>"
            using keeps s2 unfolding A tb \<open>(if mp3_clicked then query_audio ss else query_mp4 ss) = Some st\<close> res o1 x
            by (intro session.equality) (simp_all add: w3_sess x except_handler_def Let_def)
          show "calls A = calls w @ [first_call, CallMarkdown (info_text yt),
                  CallStreamToBuffer st (sess w2)]"
            unfolding A tb \<open>(if mp3_clicked then query_audio ss else query_mp4 ss) = Some st\<close> res o1 x
            by (simp add: w3_calls calls2 except_handler_def Let_def)
        qed
      qed
    qed
  qed
qed

lemma attempt_button_empty:
  "download_button_placeholder (ui (download_attempt E url w)) = None"
  by (auto simp: attempt_defs reset_page_def Let_def
      split: sum.splits option.splits prod.splits)

text \<open>A click with a non-empty URL runs the attempt; anything else leaves the state alone.\<close>

lemma script_run_triggered:
  assumes "url \<noteq> []" "mp4_clicked \<or> mp3_clicked"
  shows "script_run E url mp4_clicked mp3_clicked s =
           render_state True (download_attempt E url (attempt_world s mp3_clicked))"
  using assms
  by (auto simp: script_run_def button_column_def clicked_kind_def attempt_world_def Let_def)

lemma script_run_idle:
  assumes "url = [] \<or> (\<not> mp4_clicked \<and> \<not> mp3_clicked)"
  shows "sess (script_run E url mp4_clicked mp3_clicked s) = s"
  using assms by (auto simp: script_run_def button_column_def Let_def sess_render_state)

text \<open>What a run that starts an attempt leaves behind, in terms of the attempt.\<close>

lemma triggered_run:
  assumes "url \<noteq> []" "mp4_clicked \<or> mp3_clicked"
  shows "sess (script_run E url mp4_clicked mp3_clicked s)
           = sess (download_attempt E url (attempt_world s mp3_clicked))"
    and "calls (script_run E url mp4_clicked mp3_clicked s)
           = calls (download_attempt E url (attempt_world s mp3_clicked))"
  unfolding script_run_triggered [OF assms]
  by (simp_all add: sess_render_state calls_render_state)

lemma attempt_world_simps [simp]:
  "download_type (sess (attempt_world s mp3_clicked)) = clicked_kind mp3_clicked"
  "calls (attempt_world s mp3_clicked) = []"
  "ui (attempt_world s mp3_clicked) = empty_page"
  by (simp_all add: attempt_world_def)

subsection \<open>Facts about the concrete environments\<close>

lemma demo_url_nonempty: "demo_url \<noteq> []"
  by (simp add: demo_url_def)

lemma env_of_simps [simp]:
  "resolve (env_of r) url = r" "fround (env_of r) = demo_round" "ucd (env_of r) = demo_db"
  by (simp_all add: env_of_def)

lemma video_of_simps [simp]:
  "streams (video_of ss) = Inr ss" "title (video_of ss) = ascii ''Test: Video!''"
  "length_seconds (video_of ss) = 125"
  by (simp_all add: video_of_def)

lemma demo_queries:
  "query_mp4 [stream_720p] = Some stream_720p"
  "query_audio [stream_720p] = None"
  "query_mp4 [stream_broken] = Some stream_broken"
  "query_mp4 [stream_empty] = Some stream_empty"
  "query_audio [stream_720p, stream_webm] = Some stream_webm"
  by (simp_all add: query_mp4_def query_audio_def first_def desc_def order_by_def
      filter_progressive_mp4_def filter_only_audio_def stream_720p_def stream_broken_def
      stream_empty_def stream_webm_def)

lemma demo_round_mono: "mono demo_round"
  by (auto simp: mono_def demo_round_def intro!: divide_right_mono round_mono)

lemma demo_round_exact:
  "demo_round 0 = 0" "demo_round 1 = 1" "demo_round 100 = 100" "demo_round (1 / 2) = 1 / 2"
  "demo_round 50 = 50"
  by (simp_all add: demo_round_def)

lemma demo_round_third: "demo_round (demo_round (1 / 3) * 100) = 8525 / 256"
proof -
  have "round (1024 / 3 :: real) = 341"
    by (rule round_unique) simp_all
  then have a: "demo_round (1 / 3) = 341 / 1024"
    by (simp add: demo_round_def)
  have "round (34100 :: real) = 34100"
    by (rule round_unique) simp_all
  then show ?thesis
    unfolding a by (simp add: demo_round_def)
qed

lemma demo_transfers:
  "stream_to_buffer demo_round stream_720p (transfer stream_720p) [] s
     = (None, [1, 2, 3, 4], s\<lparr>download_progress := 100, download_complete := True\<rparr>)"
  "stream_to_buffer demo_round stream_webm (transfer stream_webm) [] s
     = (None, [7, 8, 9], s\<lparr>download_progress := 100, download_complete := True\<rparr>)"
  "stream_to_buffer demo_round stream_broken (transfer stream_broken) [] s
     = (Some (LibraryError (ascii ''timed out'')), [1, 2], s\<lparr>download_progress := 50\<rparr>)"
  "stream_to_buffer demo_round stream_empty (transfer stream_empty) [] s
     = (None, [], s\<lparr>download_complete := True\<rparr>)"
  by (simp_all add: stream_720p_def stream_webm_def stream_broken_def stream_empty_def
      progress_callback_def complete_callback_def demo_round_exact Let_def)

lemma sanitize_demo: "sanitize_title db (ascii ''Test: Video!'') = ascii ''Test Video''"
  by (simp add: sanitize_title_def rstrip_def isalnum_def isspace_def)

lemma info_text_demo:
  "title yt = ascii ''Test: Video!'' \<Longrightarrow> length_seconds yt = 125 \<Longrightarrow>
   info_text yt = ascii ''**Title:** Test: Video!'' @ [10] @ ascii ''**Length:** 2m 5s''"
  by (simp add: info_text_def str_int_def str_nat.simps)

lemma query_audio_none: "filter_only_audio ss = [] \<Longrightarrow> query_audio ss = None"
  by (simp add: query_audio_def first_def desc_def order_by_def)

subsection \<open>Runs whose outcome is known\<close>

lemma run_no_audio:
  assumes "url \<noteq> []" and "mp3_clicked"
    and yt: "resolve E url = Inr yt" and ss: "streams yt = Inr ss"
    and none: "filter_only_audio ss = []"
  shows "download_error (sess (script_run E url mp4_clicked mp3_clicked s))
           = Some (ascii ''No suitable MP3 stream found.'')"
    and "download_data (sess (script_run E url mp4_clicked mp3_clicked s)) = None"
    and "download_filename (sess (script_run E url mp4_clicked mp3_clicked s))
           = Some (sanitize_title (ucd E) (title yt) @ ascii ''.mp3'')"
    and "download_mime (sess (script_run E url mp4_clicked mp3_clicked s))
           = Some (ascii ''audio/mp3'')"
    and "calls (script_run E url mp4_clicked mp3_clicked s)
           = [CallYouTube url (reset_session (s\<lparr>download_type := ascii ''mp3''\<rparr>)),
              CallMarkdown (info_text yt)]"
proof -
  define w where "w = attempt_world s mp3_clicked"
  have run: "sess (script_run E url mp4_clicked mp3_clicked s) = sess (download_attempt E url w)"
    "calls (script_run E url mp4_clicked mp3_clicked s) = calls (download_attempt E url w)"
    using assms(1,2) by (simp_all add: triggered_run w_def)
  have kind: "download_type (sess w) = clicked_kind mp3_clicked" and log: "calls w = []"
    and s0: "sess w = s\<lparr>download_type := ascii ''mp3''\<rparr>"
    using \<open>mp3_clicked\<close> by (simp_all add: w_def attempt_world_def clicked_kind_def)
  have q: "query_audio ss = None"
    using none by (rule query_audio_none)
  from kind have
    "download_error (sess (download_attempt E url w))
       = Some (ascii ''No suitable MP3 stream found.'') \<and>
     download_data (sess (download_attempt E url w)) = None \<and>
     download_filename (sess (download_attempt E url w))
       = Some (sanitize_title (ucd E) (title yt) @ ascii ''.mp3'') \<and>
     download_mime (sess (download_attempt E url w)) = Some (ascii ''audio/mp3'') \<and>
     calls (download_attempt E url w)
       = [CallYouTube url (reset_session (sess w)), CallMarkdown (info_text yt)]"
    using yt ss q \<open>mp3_clicked\<close>
    by (cases rule: attempt_cases [where E = E and url = url])
       (simp_all add: log upper_def clicked_kind_def)
  then show
    "download_error (sess (script_run E url mp4_clicked mp3_clicked s))
           = Some (ascii ''No suitable MP3 stream found.'')"
    "download_data (sess (script_run E url mp4_clicked mp3_clicked s)) = None"
    "download_filename (sess (script_run E url mp4_clicked mp3_clicked s))
           = Some (sanitize_title (ucd E) (title yt) @ ascii ''.mp3'')"
    "download_mime (sess (script_run E url mp4_clicked mp3_clicked s))
           = Some (ascii ''audio/mp3'')"
    "calls (script_run E url mp4_clicked mp3_clicked s)
           = [CallYouTube url (reset_session (s\<lparr>download_type := ascii ''mp3''\<rparr>)),
              CallMarkdown (info_text yt)]"
    unfolding run s0 [symmetric] by simp_all
qed

lemma run_transfer:
  assumes "url \<noteq> []" and "mp4_clicked \<or> mp3_clicked"
    and yt: "resolve E url = Inr yt" and ss: "streams yt = Inr ss"
    and st: "(if mp3_clicked then query_audio ss else query_mp4 ss) = Some st"
    and stb: "\<And>s1. \<exists>s'. stream_to_buffer (fround E) st (transfer st) [] s1 = (x, buf, s')"
  shows "download_data (sess (script_run E url mp4_clicked mp3_clicked s))
           = (case x of None \<Rightarrow> Some buf | Some e \<Rightarrow> None)"
    and "download_error (sess (script_run E url mp4_clicked mp3_clicked s))
           = map_option (\<lambda>e. ascii ''An error occurred: '' @ str_exn e) x"
    and "video_info (sess (script_run E url mp4_clicked mp3_clicked s))
           = (case x of None \<Rightarrow> Some (info_text yt) | Some e \<Rightarrow> None)"
    and "download_filename (sess (script_run E url mp4_clicked mp3_clicked s))
           = Some (sanitize_title (ucd E) (title yt)
                     @ (if mp3_clicked then ascii ''.mp3'' else ascii ''.mp4''))"
    and "download_mime (sess (script_run E url mp4_clicked mp3_clicked s))
           = Some (if mp3_clicked then ascii ''audio/mp3'' else ascii ''video/mp4'')"
proof -
  define w where "w = attempt_world s mp3_clicked"
  have run: "sess (script_run E url mp4_clicked mp3_clicked s) = sess (download_attempt E url w)"
    using assms(1,2) by (simp_all add: triggered_run w_def)
  have kind: "download_type (sess w) = clicked_kind mp3_clicked"
    by (simp add: w_def)
  have *: "x' = x \<and> buf' = buf"
    if "stream_to_buffer (fround E) st (transfer st) [] s1 = (x', buf', s')" for s1 x' buf' s'
    using stb [of s1] that by auto
  from kind have
    "download_data (sess (download_attempt E url w))
           = (case x of None \<Rightarrow> Some buf | Some e \<Rightarrow> None) \<and>
     download_error (sess (download_attempt E url w))
           = map_option (\<lambda>e. ascii ''An error occurred: '' @ str_exn e) x \<and>
     video_info (sess (download_attempt E url w))
           = (case x of None \<Rightarrow> Some (info_text yt) | Some e \<Rightarrow> None) \<and>
     download_filename (sess (download_attempt E url w))
           = Some (sanitize_title (ucd E) (title yt)
                     @ (if mp3_clicked then ascii ''.mp3'' else ascii ''.mp4'')) \<and>
     download_mime (sess (download_attempt E url w))
           = Some (if mp3_clicked then ascii ''audio/mp3'' else ascii ''video/mp4'')"
    using yt ss st
    by (cases rule: attempt_cases [where E = E and url = url]) (auto dest!: *)
  then show
    "download_data (sess (script_run E url mp4_clicked mp3_clicked s))
           = (case x of None \<Rightarrow> Some buf | Some e \<Rightarrow> None)"
    "download_error (sess (script_run E url mp4_clicked mp3_clicked s))
           = map_option (\<lambda>e. ascii ''An error occurred: '' @ str_exn e) x"
    "video_info (sess (script_run E url mp4_clicked mp3_clicked s))
           = (case x of None \<Rightarrow> Some (info_text yt) | Some e \<Rightarrow> None)"
    "download_filename (sess (script_run E url mp4_clicked mp3_clicked s))
           = Some (sanitize_title (ucd E) (title yt)
                     @ (if mp3_clicked then ascii ''.mp3'' else ascii ''.mp4''))"
    "download_mime (sess (script_run E url mp4_clicked mp3_clicked s))
           = Some (if mp3_clicked then ascii ''audio/mp3'' else ascii ''video/mp4'')"
    unfolding run by simp_all
qed

subsection \<open>The download button\<close>

lemma truthy_iff: "truthy v = (\<exists>xs. v = Some xs \<and> xs \<noteq> [])"
  by (cases v) (simp_all add: truthy_def)

lemma run_button:
  "(download_button_placeholder (ui (script_run E url mp4_clicked mp3_clicked s)) \<noteq> None)
     = (truthy (download_data (sess (script_run E url mp4_clicked mp3_clicked s))) \<and>
        truthy (download_filename (sess (script_run E url mp4_clicked mp3_clicked s))))"
proof (cases "url \<noteq> [] \<and> (mp4_clicked \<or> mp3_clicked)")
  case True
  then show ?thesis
    by (simp add: script_run_triggered render_state_def Let_def attempt_button_empty)
next
  case False
  then consider "url = []" | "\<not> mp4_clicked" "\<not> mp3_clicked"
    by blast
  then show ?thesis
    by cases
      (simp_all add: script_run_def button_column_def render_state_def empty_page_def Let_def)
qed

lemma attempt_data_needs_filename:
  assumes "download_type (sess w) = clicked_kind mp3_clicked"
    and "download_data (sess (download_attempt E url w)) \<noteq> None"
  shows "truthy (download_filename (sess (download_attempt E url w))) \<and>
         download_mime (sess (download_attempt E url w)) \<noteq> None"
  using assms
  by (cases rule: attempt_cases [where E = E and url = url]) (simp_all add: truthy_def)

lemma reachable_data_needs_filename:
  assumes "reachable s" and "download_data s \<noteq> None"
  shows "truthy (download_filename s) \<and> download_mime s \<noteq> None"
  using assms
proof (induction rule: reachable.induct)
  case start
  then show ?case by (simp add: initial_session_def)
next
  case (run s E url mp4_clicked mp3_clicked)
  show ?case
  proof (cases "url \<noteq> [] \<and> (mp4_clicked \<or> mp3_clicked)")
    case True
    then have t: "url \<noteq> []" "mp4_clicked \<or> mp3_clicked" by simp_all
    have kind: "download_type (sess (attempt_world s mp3_clicked)) = clicked_kind mp3_clicked"
      by simp
    from run.prems show ?thesis
      unfolding triggered_run [OF t]
      by (rule attempt_data_needs_filename [OF kind])
  next
    case False
    then have "sess (script_run E url mp4_clicked mp3_clicked s) = s"
      by (intro script_run_idle) auto
    with run show ?thesis by simp
  qed
qed

section \<open>The claims\<close>

text \<open>
  In the theorems below a run starts an attempt when the URL box is not empty and one of
  the two buttons was clicked; the requested kind is audio when the audio button was
  clicked and video otherwise. A session field is set when it is not \<^verbatim>\<open>None\<close>.
\<close>

subsection \<open>The reset at the start of an attempt\<close>

text \<open>
  Claim C7. For every prior session state, a run that starts an attempt resets the
  state before anything else: the first entry of the log is the call of the resolver,
  and the session state at the moment of that call has \<^verbatim>\<open>download_progress\<close> 0,
  \<^verbatim>\<open>download_complete\<close> false and \<^verbatim>\<open>download_error\<close>, \<^verbatim>\<open>download_data\<close>,
  \<^verbatim>\<open>video_info\<close>, \<^verbatim>\<open>download_filename\<close> and \<^verbatim>\<open>download_mime\<close> unset. The transfer,
  if there is one, is a later entry of the log.
\<close>

theorem attempt_resets_first:
  assumes "url \<noteq> []" and "mp4_clicked \<or> mp3_clicked"
  shows "\<exists>snap rest.
           calls (script_run E url mp4_clicked mp3_clicked s) = CallYouTube url snap # rest \<and>
           snap = reset_session (s\<lparr>download_type := clicked_kind mp3_clicked\<rparr>) \<and>
           download_progress snap = 0 \<and> \<not> download_complete snap \<and>
           download_error snap = None \<and> download_data snap = None \<and>
           video_info snap = None \<and> download_filename snap = None \<and>
           download_mime snap = None"
proof -
  define w where "w = attempt_world s mp3_clicked"
  let ?snap = "reset_session (sess w)"
  have kind: "download_type (sess w) = clicked_kind mp3_clicked" and log: "calls w = []"
    and s0: "sess w = s\<lparr>download_type := clicked_kind mp3_clicked\<rparr>"
    by (simp_all add: w_def attempt_world_def)
  have snap: "download_progress ?snap = 0 \<and> \<not> download_complete ?snap \<and>
           download_error ?snap = None \<and> download_data ?snap = None \<and>
           video_info ?snap = None \<and> download_filename ?snap = None \<and>
           download_mime ?snap = None"
    by (simp add: reset_session_def)
  from kind have "\<exists>rest. calls (download_attempt E url w) = CallYouTube url ?snap # rest"
    by (cases rule: attempt_cases [where E = E and url = url]) (simp_all add: log)
  with snap show ?thesis
    unfolding triggered_run [OF assms] w_def [symmetric] s0 [symmetric] by blast
qed

text \<open>A witness: an attempt that starts from a state in which every field is set.\<close>

theorem attempt_resets_first_witness:
  "demo_url \<noteq> [] \<and>
   (\<exists>rest. calls (script_run (env_of (Inr (video_of [stream_720p]))) demo_url True False
       \<lparr>download_progress = 100, download_complete = True, video_info = Some (ascii ''old''),
        download_error = Some (ascii ''old''), download_data = Some [1],
        download_filename = Some (ascii ''old.mp3''), download_mime = Some (ascii ''audio/mp3''),
        download_type = ascii ''mp3''\<rparr>)
     = CallYouTube demo_url
         \<lparr>download_progress = 0, download_complete = False, video_info = None,
          download_error = None, download_data = None, download_filename = None,
          download_mime = None, download_type = ascii ''mp4''\<rparr> # rest)"
proof -
  have click: "True \<or> False" by simp
  from attempt_resets_first [OF demo_url_nonempty click,
      of "env_of (Inr (video_of [stream_720p]))"
         "\<lparr>download_progress = 100, download_complete = True, video_info = Some (ascii ''old''),
        download_error = Some (ascii ''old''), download_data = Some [1],
        download_filename = Some (ascii ''old.mp3''), download_mime = Some (ascii ''audio/mp3''),
        download_type = ascii ''mp3''\<rparr>"]
  show ?thesis
    by (simp add: demo_url_nonempty reset_session_def clicked_kind_def)
qed

subsection \<open>Buffered bytes and error message\<close>

text \<open>
  Claim C3. A run that starts an attempt on a non-empty URL ends with exactly one of
  \<^verbatim>\<open>download_data\<close> and \<^verbatim>\<open>download_error\<close> set, never both and never neither,
  whether the attempt succeeds, finds no stream or has an exception caught. (Every
  attempt of the model completes: the transfer is a finite list of events.)
\<close>

theorem exactly_one_of_data_and_error:
  assumes "url \<noteq> []" and "mp4_clicked \<or> mp3_clicked"
  shows "(download_data (sess (script_run E url mp4_clicked mp3_clicked s)) = None)
           \<noteq> (download_error (sess (script_run E url mp4_clicked mp3_clicked s)) = None)"
proof -
  have kind: "download_type (sess (attempt_world s mp3_clicked)) = clicked_kind mp3_clicked"
    by simp
  from kind show ?thesis
    unfolding triggered_run [OF assms]
    by (cases rule: attempt_cases [where E = E and url = url]) simp_all
qed

text \<open>A witness: the successful download of the 720p stream.\<close>

theorem exactly_one_of_data_and_error_witness:
  "demo_url \<noteq> [] \<and>
   download_data (sess (script_run (env_of (Inr (video_of [stream_720p]))) demo_url
      True False initial_session)) = Some [1, 2, 3, 4] \<and>
   download_error (sess (script_run (env_of (Inr (video_of [stream_720p]))) demo_url
      True False initial_session)) = None"
proof -
  have click: "True \<or> False" by simp
  have "download_data (sess (script_run (env_of (Inr (video_of [stream_720p]))) demo_url
      True False initial_session)) = Some [1, 2, 3, 4]"
    using run_transfer(1) [where url = demo_url and mp3_clicked = False and mp4_clicked = True
        and E = "env_of (Inr (video_of [stream_720p]))" and yt = "video_of [stream_720p]"
        and ss = "[stream_720p]" and st = stream_720p and x = None
        and buf = "[1, 2, 3, 4]" and s = initial_session]
    by (simp add: demo_url_nonempty demo_queries demo_transfers)
  with exactly_one_of_data_and_error [OF demo_url_nonempty click,
      of "env_of (Inr (video_of [stream_720p]))" initial_session]
  show ?thesis
    by (simp add: demo_url_nonempty)
qed

text \<open>
  Claim C1, as amended. When the audio button starts an attempt on a URL that resolves
  and whose stream list has no audio-only stream, the attempt sets \<^verbatim>\<open>download_error\<close>
  to \<^verbatim>\<open>"No suitable MP3 stream found."\<close>, leaves \<^verbatim>\<open>download_data\<close> unset and never calls
  \<^verbatim>\<open>stream_to_buffer\<close>. The message names the upper-cased \<^verbatim>\<open>download_type\<close>, which
  is \<^verbatim>\<open>"mp3"\<close> for audio (line 131).
\<close>

theorem no_audio_stream:
  assumes "url \<noteq> []" and "mp3_clicked"
    and "resolve E url = Inr yt" and "streams yt = Inr ss"
    and "filter_only_audio ss = []"
  shows "download_error (sess (script_run E url mp4_clicked mp3_clicked s))
           = Some (ascii ''No suitable MP3 stream found.'') \<and>
         download_data (sess (script_run E url mp4_clicked mp3_clicked s)) = None \<and>
         (\<forall>st snap. CallStreamToBuffer st snap
             \<notin> set (calls (script_run E url mp4_clicked mp3_clicked s)))"
  using run_no_audio(1,2,5) [OF assms] by simp

text \<open>A witness: the only stream is progressive, so no stream is audio-only.\<close>

theorem no_audio_stream_witness:
  "demo_url \<noteq> [] \<and> filter_only_audio [stream_720p] = [] \<and>
   download_error (sess (script_run (env_of (Inr (video_of [stream_720p]))) demo_url
       False True initial_session))
     = Some (ascii ''No suitable MP3 stream found.'') \<and>
   download_data (sess (script_run (env_of (Inr (video_of [stream_720p]))) demo_url
       False True initial_session)) = None"
  using no_audio_stream [where url = demo_url and mp3_clicked = True
      and E = "env_of (Inr (video_of [stream_720p]))" and yt = "video_of [stream_720p]"
      and ss = "[stream_720p]" and mp4_clicked = False and s = initial_session]
  by (simp add: demo_url_nonempty filter_only_audio_def stream_720p_def)

text \<open>
  Claim C1 as the spec states it fails: on the same input, where all its hypotheses
  hold, the message is not \<^verbatim>\<open>"No suitable AUDIO stream found."\<close>.
\<close>

theorem no_audio_stream_message_counterexample:
  "demo_url \<noteq> [] \<and>
   resolve (env_of (Inr (video_of [stream_720p]))) demo_url = Inr (video_of [stream_720p]) \<and>
   streams (video_of [stream_720p]) = Inr [stream_720p] \<and>
   filter_only_audio [stream_720p] = [] \<and>
   download_error (sess (script_run (env_of (Inr (video_of [stream_720p]))) demo_url
       False True initial_session))
     \<noteq> Some (ascii ''No suitable AUDIO stream found.'')"
  using run_no_audio(1) [where url = demo_url and mp3_clicked = True
      and E = "env_of (Inr (video_of [stream_720p]))" and yt = "video_of [stream_720p]"
      and ss = "[stream_720p]" and mp4_clicked = False and s = initial_session]
  by (simp add: demo_url_nonempty filter_only_audio_def stream_720p_def)

text \<open>
  Claim C8. When the resolver raises, or reading the stream list raises, or the transfer
  of the selected stream raises (be it pytube's exception or the callback's division by
  zero), the run ends normally with \<^verbatim>\<open>download_error\<close> set to \<^verbatim>\<open>"An error occurred: "\<close>
  followed by the text of the exception, and with \<^verbatim>\<open>download_data\<close> and \<^verbatim>\<open>video_info\<close>
  unset. The exception does not leave the attempt: \<open>script_run\<close> returns a world in
  every case.
\<close>

theorem exception_caught:
  assumes "url \<noteq> []" and "mp4_clicked \<or> mp3_clicked"
    and raised:
      "resolve E url = Inl e \<or>
       (\<exists>yt. resolve E url = Inr yt \<and>
          (streams yt = Inl e \<or>
           (\<exists>ss st s0. streams yt = Inr ss \<and>
              (if mp3_clicked then query_audio ss else query_mp4 ss) = Some st \<and>
              fst (stream_to_buffer (fround E) st (transfer st) [] s0) = Some e)))"
  shows "download_error (sess (script_run E url mp4_clicked mp3_clicked s))
           = Some (ascii ''An error occurred: '' @ str_exn e) \<and>
         download_data (sess (script_run E url mp4_clicked mp3_clicked s)) = None \<and>
         video_info (sess (script_run E url mp4_clicked mp3_clicked s)) = None"
proof -
  have kind: "download_type (sess (attempt_world s mp3_clicked)) = clicked_kind mp3_clicked"
    by simp
  have *: "x = Some e"
    if "stream_to_buffer (fround E) st (transfer st) [] s1 = (x, buf, s')"
      "fst (stream_to_buffer (fround E) st (transfer st) [] s0) = Some e"
    for st s0 s1 x buf s'
    using that stream_to_buffer_outcome [of "fround E" st "transfer st" "[]" s1 "[]" s0]
    by simp
  from kind show ?thesis
    using raised unfolding triggered_run [OF assms(1,2)]
    by (cases rule: attempt_cases [where E = E and url = url]) (auto dest: *)
qed

text \<open>A witness: the transfer that times out after its first chunk.\<close>

theorem exception_caught_witness:
  "demo_url \<noteq> [] \<and>
   download_error (sess (script_run (env_of (Inr (video_of [stream_broken]))) demo_url
      True False initial_session)) = Some (ascii ''An error occurred: timed out'') \<and>
   download_data (sess (script_run (env_of (Inr (video_of [stream_broken]))) demo_url
      True False initial_session)) = None \<and>
   video_info (sess (script_run (env_of (Inr (video_of [stream_broken]))) demo_url
      True False initial_session)) = None"
proof -
  have click: "True \<or> False" by simp
  have raised:
    "resolve (env_of (Inr (video_of [stream_broken]))) demo_url
       = Inl (LibraryError (ascii ''timed out'')) \<or>
     (\<exists>yt. resolve (env_of (Inr (video_of [stream_broken]))) demo_url = Inr yt \<and>
        (streams yt = Inl (LibraryError (ascii ''timed out'')) \<or>
         (\<exists>ss st s0. streams yt = Inr ss \<and>
            (if False then query_audio ss else query_mp4 ss) = Some st \<and>
            fst (stream_to_buffer (fround (env_of (Inr (video_of [stream_broken])))) st
                   (transfer st) [] s0) = Some (LibraryError (ascii ''timed out'')))))"
    by (simp add: demo_queries demo_transfers)
  from exception_caught [OF demo_url_nonempty click raised, of initial_session]
  show ?thesis
    by (simp add: demo_url_nonempty)
qed

subsection \<open>File name and MIME type\<close>

text \<open>
  Claim C2, as amended. After a run that started an attempt, \<^verbatim>\<open>download_filename\<close> and
  \<^verbatim>\<open>download_mime\<close> are set together, and they are set exactly when the resolver and the
  read of the stream list returned without raising: lines 117 and 118 (127 and 128)
  store them right after the stream query, before the test for a missing stream and
  before the transfer. Whenever \<^verbatim>\<open>download_data\<close> is set they are set too; the converse
  does not hold.
\<close>

theorem filename_mime_set_by_selection:
  assumes "url \<noteq> []" and "mp4_clicked \<or> mp3_clicked"
  shows "(download_filename (sess (script_run E url mp4_clicked mp3_clicked s)) = None)
           = (download_mime (sess (script_run E url mp4_clicked mp3_clicked s)) = None) \<and>
         (download_filename (sess (script_run E url mp4_clicked mp3_clicked s)) \<noteq> None)
           = (\<exists>yt ss. resolve E url = Inr yt \<and> streams yt = Inr ss) \<and>
         (download_data (sess (script_run E url mp4_clicked mp3_clicked s)) \<noteq> None \<longrightarrow>
            download_filename (sess (script_run E url mp4_clicked mp3_clicked s)) \<noteq> None \<and>
            download_mime (sess (script_run E url mp4_clicked mp3_clicked s)) \<noteq> None)"
proof -
  have kind: "download_type (sess (attempt_world s mp3_clicked)) = clicked_kind mp3_clicked"
    by simp
  from kind show ?thesis
    unfolding triggered_run [OF assms]
    by (cases rule: attempt_cases [where E = E and url = url]) simp_all
qed

text \<open>A witness: the resolver raises, and both fields stay unset.\<close>

theorem filename_mime_set_by_selection_witness:
  "demo_url \<noteq> [] \<and>
   download_filename (sess (script_run (env_of (Inl (LibraryError (ascii ''no match''))))
       demo_url True False initial_session)) = None \<and>
   download_mime (sess (script_run (env_of (Inl (LibraryError (ascii ''no match''))))
       demo_url True False initial_session)) = None"
proof -
  have click: "True \<or> False" by simp
  have "\<not> (\<exists>yt ss. resolve (env_of (Inl (LibraryError (ascii ''no match'')))) demo_url
            = Inr yt \<and> streams yt = Inr ss)"
    by simp
  with filename_mime_set_by_selection [OF demo_url_nonempty click,
      of "env_of (Inl (LibraryError (ascii ''no match'')))" initial_session]
  show ?thesis
    using demo_url_nonempty by blast
qed

text \<open>
  Claim C2 as the spec states it fails: after an attempt that fails in the stream
  selection (no audio-only stream), the file name and the MIME type are set and the
  buffered bytes are not.
\<close>

theorem filename_mime_counterexample:
  "download_filename (sess (script_run (env_of (Inr (video_of [stream_720p]))) demo_url
       False True initial_session)) = Some (ascii ''Test Video.mp3'') \<and>
   download_mime (sess (script_run (env_of (Inr (video_of [stream_720p]))) demo_url
       False True initial_session)) = Some (ascii ''audio/mp3'') \<and>
   download_data (sess (script_run (env_of (Inr (video_of [stream_720p]))) demo_url
       False True initial_session)) = None"
  using run_no_audio(2,3,4) [where url = demo_url and mp3_clicked = True
      and E = "env_of (Inr (video_of [stream_720p]))" and yt = "video_of [stream_720p]"
      and ss = "[stream_720p]" and mp4_clicked = False and s = initial_session]
  by (simp add: demo_url_nonempty filter_only_audio_def stream_720p_def sanitize_demo [simplified])

text \<open>
  Claim C9. Whenever an attempt sets \<^verbatim>\<open>download_filename\<close> and \<^verbatim>\<open>download_mime\<close>, the
  file name ends with \<^verbatim>\<open>.mp3\<close> and the MIME type is \<^verbatim>\<open>audio/mp3\<close> for audio, and the
  file name ends with \<^verbatim>\<open>.mp4\<close> and the MIME type is \<^verbatim>\<open>video/mp4\<close> for video. No
  attribute of the selected stream enters: the theorem holds for every environment.
\<close>

theorem extension_and_mime_by_kind:
  assumes "url \<noteq> []" and "mp4_clicked \<or> mp3_clicked"
    and "download_filename (sess (script_run E url mp4_clicked mp3_clicked s)) = Some f"
    and "download_mime (sess (script_run E url mp4_clicked mp3_clicked s)) = Some m"
  shows "if mp3_clicked then (\<exists>t. f = t @ ascii ''.mp3'') \<and> m = ascii ''audio/mp3''
         else (\<exists>t. f = t @ ascii ''.mp4'') \<and> m = ascii ''video/mp4''"
proof -
  have kind: "download_type (sess (attempt_world s mp3_clicked)) = clicked_kind mp3_clicked"
    by simp
  from kind show ?thesis
    using assms(3,4) unfolding triggered_run [OF assms(1,2)]
    by (cases rule: attempt_cases [where E = E and url = url]) auto
qed

text \<open>A witness: the selected audio stream is in a webm container.\<close>

theorem extension_and_mime_by_kind_witness:
  "demo_url \<noteq> [] \<and> subtype stream_webm = ascii ''webm'' \<and>
   download_filename (sess (script_run (env_of (Inr (video_of [stream_720p, stream_webm])))
       demo_url False True initial_session)) = Some (ascii ''Test Video.mp3'') \<and>
   download_mime (sess (script_run (env_of (Inr (video_of [stream_720p, stream_webm])))
       demo_url False True initial_session)) = Some (ascii ''audio/mp3'')"
proof -
  let ?E = "env_of (Inr (video_of [stream_720p, stream_webm]))"
  have f: "download_filename (sess (script_run ?E demo_url False True initial_session))
             = Some (ascii ''Test Video.mp3'')"
    and m: "download_mime (sess (script_run ?E demo_url False True initial_session))
             = Some (ascii ''audio/mp3'')"
    using run_transfer(4,5) [where url = demo_url and mp3_clicked = True and mp4_clicked = False
        and E = ?E and yt = "video_of [stream_720p, stream_webm]"
        and ss = "[stream_720p, stream_webm]" and st = stream_webm and x = None
        and buf = "[7, 8, 9]" and s = initial_session]
    by (simp_all add: demo_url_nonempty demo_queries demo_transfers sanitize_demo [simplified])
  from extension_and_mime_by_kind [OF demo_url_nonempty _ f m] f m show ?thesis
    by (simp add: demo_url_nonempty stream_webm_def)
qed

text \<open>
  Claim C5. The sanitization of line 102 (keep the alphanumeric characters, spaces,
  periods, underscores and hyphens, then strip the trailing white space) is idempotent:
  sanitizing a sanitized title changes nothing, for every string and every Unicode
  table.
\<close>

theorem sanitize_title_idempotent:
  "sanitize_title db (sanitize_title db t) = sanitize_title db t"
  by (simp add: sanitize_title_def filter_rstrip rstrip_rstrip)

theorem sanitize_title_idempotent_witness:
  "sanitize_title demo_db (sanitize_title demo_db (ascii ''a: b_c.-  ''))
     = ascii ''a b_c.-''"
  using sanitize_title_idempotent [of demo_db "ascii ''a: b_c.-  ''"]
  by (simp add: sanitize_title_def rstrip_def isalnum_def isspace_def demo_db_def)

text \<open>
  Claim C6. When the video button starts an attempt on a URL that resolves to the title
  \<^verbatim>\<open>"Test: Video!"\<close> and the duration 125 seconds, with one progressive mp4 stream,
  \<^verbatim>\<open>download_filename\<close> becomes \<^verbatim>\<open>"Test Video.mp4"\<close> and the info text that line 105
  renders is \<^verbatim>\<open>"**Title:** Test: Video!\n**Length:** 2m 5s"\<close>, which contains
  \<^verbatim>\<open>"2m 5s"\<close>. Both hold whatever the transfer does afterwards.
\<close>

theorem scenario_a_filename_and_info:
  assumes "url \<noteq> []" and "mp4_clicked" and "\<not> mp3_clicked"
    and yt: "resolve E url = Inr yt"
    and "title yt = ascii ''Test: Video!''" and "length_seconds yt = 125"
    and ss: "streams yt = Inr [st]"
    and "is_progressive st" and "subtype st = ascii ''mp4''"
  shows "download_filename (sess (script_run E url mp4_clicked mp3_clicked s))
           = Some (ascii ''Test Video.mp4'') \<and>
         CallMarkdown (ascii ''**Title:** Test: Video!'' @ [10] @ ascii ''**Length:** 2m 5s'')
           \<in> set (calls (script_run E url mp4_clicked mp3_clicked s)) \<and>
         (\<exists>pre post. CallMarkdown (pre @ ascii ''2m 5s'' @ post)
           \<in> set (calls (script_run E url mp4_clicked mp3_clicked s)))"
proof -
  have click: "mp4_clicked \<or> mp3_clicked"
    using assms(2) by simp
  have kind: "download_type (sess (attempt_world s mp3_clicked)) = clicked_kind mp3_clicked"
    by simp
  have info: "info_text yt = ascii ''**Title:** Test: Video!'' @ [10] @ ascii ''**Length:** 2m 5s''"
    using assms(5,6) by (rule info_text_demo)
  have san: "sanitize_title (ucd E) (title yt) = ascii ''Test Video''"
    using assms(5) by (simp add: sanitize_demo [simplified])
  from kind have
    "download_filename (sess (download_attempt E url (attempt_world s mp3_clicked)))
       = Some (sanitize_title (ucd E) (title yt) @ ascii ''.mp4'') \<and>
     CallMarkdown (info_text yt)
       \<in> set (calls (download_attempt E url (attempt_world s mp3_clicked)))"
    using yt ss \<open>\<not> mp3_clicked\<close>
    by (cases rule: attempt_cases [where E = E and url = url]) simp_all
  then have 1: "download_filename (sess (script_run E url mp4_clicked mp3_clicked s))
           = Some (ascii ''Test Video.mp4'')"
    and 2: "CallMarkdown (ascii ''**Title:** Test: Video!'' @ [10] @ ascii ''**Length:** 2m 5s'')
           \<in> set (calls (script_run E url mp4_clicked mp3_clicked s))"
    unfolding triggered_run [OF assms(1) click] san info by simp_all
  from 2 have "CallMarkdown ((ascii ''**Title:** Test: Video!'' @ [10] @ ascii ''**Length:** '')
                   @ ascii ''2m 5s'' @ [])
           \<in> set (calls (script_run E url mp4_clicked mp3_clicked s))"
    by simp
  then have "\<exists>pre post. CallMarkdown (pre @ ascii ''2m 5s'' @ post)
           \<in> set (calls (script_run E url mp4_clicked mp3_clicked s))"
    by blast
  with 1 2 show ?thesis by blast
qed

text \<open>A witness: the stream of scenario A, progressive, mp4, at 720p.\<close>

theorem scenario_a_filename_and_info_witness:
  "demo_url \<noteq> [] \<and> is_progressive stream_720p \<and> subtype stream_720p = ascii ''mp4'' \<and>
   resolution stream_720p = Some 720 \<and>
   download_filename (sess (script_run (env_of (Inr (video_of [stream_720p]))) demo_url
      True False initial_session)) = Some (ascii ''Test Video.mp4'') \<and>
   CallMarkdown (ascii ''**Title:** Test: Video!'' @ [10] @ ascii ''**Length:** 2m 5s'')
     \<in> set (calls (script_run (env_of (Inr (video_of [stream_720p]))) demo_url
      True False initial_session))"
proof -
  have st: "is_progressive stream_720p" "subtype stream_720p = ascii ''mp4''"
    "resolution stream_720p = Some 720"
    by (simp_all add: stream_720p_def)
  have a: "True" "\<not> False"
    "resolve (env_of (Inr (video_of [stream_720p]))) demo_url = Inr (video_of [stream_720p])"
    "title (video_of [stream_720p]) = ascii ''Test: Video!''"
    "length_seconds (video_of [stream_720p]) = 125"
    "streams (video_of [stream_720p]) = Inr [stream_720p]"
    by simp_all
  from scenario_a_filename_and_info [OF demo_url_nonempty a st(1,2), of initial_session] st
  show ?thesis
    using demo_url_nonempty by blast
qed

subsection \<open>The progress percentage\<close>

text \<open>
  Claim C4. For every progress notification delivered during a transfer, that is, after a
  chunk of at least one byte and with \<open>bytes_remaining\<close> the file size less the bytes
  received so far, and with \<open>0 \<le> bytes_remaining \<le> filesize\<close>, the callback does not
  divide by zero: it returns, the percentage that it stores lies between 0 and 100, and
  the transfer goes on with the next event. This holds for every rounding to floats that
  is monotone and leaves 0, 1 and 100 as they are. The file size is at least 1 here,
  since at least one byte has arrived and no more than the file size.
\<close>

theorem progress_percent_in_range:
  assumes "mono rnd" and "rnd 0 = 0" and "rnd 1 = 1" and "rnd 100 = 100"
    and "delivered_notification strm buf chunk bytes_remaining"
    and "0 \<le> bytes_remaining" and "bytes_remaining \<le> filesize strm"
  shows "\<exists>p. 0 \<le> p \<and> p \<le> 100 \<and>
           progress_callback rnd strm bytes_remaining s = Inr (s\<lparr>download_progress := p\<rparr>) \<and>
           stream_to_buffer rnd strm (Chunk chunk bytes_remaining # es) buf s
             = stream_to_buffer rnd strm es (buf @ chunk) (s\<lparr>download_progress := p\<rparr>)"
proof -
  define q :: real where
    "q = of_int (filesize strm - bytes_remaining) / of_int (filesize strm)"
  have "0 < int (length chunk)"
    and "filesize strm = bytes_remaining + int (length buf) + int (length chunk)"
    using assms(5) by (simp_all add: delivered_notification_def)
  then have pos: "0 < filesize strm"
    using assms(6) by linarith
  have q: "0 \<le> q" "q \<le> 1"
    using assms(6,7) pos by (simp_all add: q_def)
  have "rnd 0 \<le> rnd q" and "rnd q \<le> rnd 1"
    using \<open>mono rnd\<close> q by (blast intro: monoD)+
  then have r: "0 \<le> rnd q * 100" "rnd q * 100 \<le> 100"
    using assms(2,3) by simp_all
  have "rnd 0 \<le> rnd (rnd q * 100)" and "rnd (rnd q * 100) \<le> rnd 100"
    using \<open>mono rnd\<close> r by (blast intro: monoD)+
  then have p: "0 \<le> rnd (rnd q * 100)" "rnd (rnd q * 100) \<le> 100"
    using assms(2,4) by simp_all
  have c: "progress_callback rnd strm bytes_remaining s
             = Inr (s\<lparr>download_progress := rnd (rnd q * 100)\<rparr>)"
    using pos by (simp add: progress_callback_def q_def Let_def)
  then have "stream_to_buffer rnd strm (Chunk chunk bytes_remaining # es) buf s
      = stream_to_buffer rnd strm es (buf @ chunk) (s\<lparr>download_progress := rnd (rnd q * 100)\<rparr>)"
    by simp
  with p c show ?thesis by blast
qed

text \<open>
  A witness: the first byte of the three of the audio stream has arrived, and the
  percentage stored is 33.30078125, a third as the rounding gives it.
\<close>

theorem progress_percent_in_range_witness:
  "mono demo_round \<and> demo_round 0 = 0 \<and> demo_round 1 = 1 \<and> demo_round 100 = 100 \<and>
   delivered_notification stream_webm [] [7] 2 \<and> (0::int) \<le> 2 \<and> 2 \<le> filesize stream_webm \<and>
   progress_callback demo_round stream_webm 2 initial_session
     = Inr (initial_session\<lparr>download_progress := 8525 / 256\<rparr>) \<and>
   stream_to_buffer demo_round stream_webm [Chunk [7] 2] [] initial_session
     = (None, [7], initial_session\<lparr>download_progress := 8525 / 256\<rparr>)"
proof -
  have a: "delivered_notification stream_webm [] [7] 2" "(0::int) \<le> 2"
    "2 \<le> filesize stream_webm"
    by (simp_all add: delivered_notification_def stream_webm_def)
  have c: "progress_callback demo_round stream_webm 2 initial_session
     = Inr (initial_session\<lparr>download_progress := 8525 / 256\<rparr>)"
    by (simp add: progress_callback_def stream_webm_def demo_round_third Let_def)
  from progress_percent_in_range [OF demo_round_mono demo_round_exact(1,2,3) a,
      of initial_session "[]"] a c
  show ?thesis
    by (simp add: demo_round_mono demo_round_exact)
qed

subsection \<open>The download button and the buffered bytes\<close>

text \<open>
  Claim C10, as amended. In every reachable session state, if \<^verbatim>\<open>download_data\<close> is set
  then \<^verbatim>\<open>download_filename\<close> and \<^verbatim>\<open>download_mime\<close> are set; and a run from a reachable
  state renders the download button exactly when \<^verbatim>\<open>download_data\<close> is set and not empty
  afterwards: line 177 tests the truth value of the bytes, and empty bytes are false.
\<close>

theorem button_iff_nonempty_bytes:
  assumes "reachable s"
  shows "(download_data s \<noteq> None \<longrightarrow> download_filename s \<noteq> None \<and> download_mime s \<noteq> None) \<and>
         (download_button_placeholder (ui (script_run E url mp4_clicked mp3_clicked s)) \<noteq> None)
           = (\<exists>d. download_data (sess (script_run E url mp4_clicked mp3_clicked s)) = Some d
                \<and> d \<noteq> [])"
proof -
  let ?s' = "sess (script_run E url mp4_clicked mp3_clicked s)"
  have 1: "download_data s \<noteq> None \<longrightarrow> download_filename s \<noteq> None \<and> download_mime s \<noteq> None"
    using reachable_data_needs_filename [OF assms]
    by (auto simp: truthy_iff)
  have "reachable ?s'"
    using assms by (rule reachable.run)
  have "truthy (download_filename ?s')" if "truthy (download_data ?s')"
  proof -
    from that have "download_data ?s' \<noteq> None"
      by (auto simp: truthy_iff)
    with \<open>reachable ?s'\<close> show ?thesis
      by (simp add: reachable_data_needs_filename)
  qed
  then have "(download_button_placeholder (ui (script_run E url mp4_clicked mp3_clicked s)) \<noteq> None)
           = truthy (download_data ?s')"
    unfolding run_button by blast
  also have "\<dots> = (\<exists>d. download_data ?s' = Some d \<and> d \<noteq> [])"
    by (simp add: truthy_iff)
  finally show ?thesis using 1 by blast
qed

text \<open>A witness: after the download of the 720p stream the button is there.\<close>

theorem button_iff_nonempty_bytes_witness:
  "reachable initial_session \<and>
   download_data (sess (script_run (env_of (Inr (video_of [stream_720p]))) demo_url True False
      initial_session)) = Some [1, 2, 3, 4] \<and>
   download_button_placeholder (ui (script_run (env_of (Inr (video_of [stream_720p]))) demo_url
      True False initial_session)) \<noteq> None"
proof -
  have d: "download_data (sess (script_run (env_of (Inr (video_of [stream_720p]))) demo_url
      True False initial_session)) = Some [1, 2, 3, 4]"
    using run_transfer(1) [where url = demo_url and mp3_clicked = False and mp4_clicked = True
        and E = "env_of (Inr (video_of [stream_720p]))" and yt = "video_of [stream_720p]"
        and ss = "[stream_720p]" and st = stream_720p and x = None
        and buf = "[1, 2, 3, 4]" and s = initial_session]
    by (simp add: demo_url_nonempty demo_queries demo_transfers)
  from button_iff_nonempty_bytes [OF reachable.start,
      of "env_of (Inr (video_of [stream_720p]))" demo_url True False] d
  show ?thesis
    by (simp add: reachable.start)
qed

text \<open>
  Claim C10 as stated fails: a stream of no bytes is transferred without an error,
  \<^verbatim>\<open>download_data\<close> is set to the empty byte string, and no button is rendered.
\<close>

theorem button_without_bytes_counterexample:
  "reachable (sess (script_run (env_of (Inr (video_of [stream_empty]))) demo_url True False
      initial_session)) \<and>
   download_data (sess (script_run (env_of (Inr (video_of [stream_empty]))) demo_url True False
      initial_session)) = Some [] \<and>
   download_button_placeholder (ui (script_run (env_of (Inr (video_of [stream_empty]))) demo_url
      True False initial_session)) = None"
proof -
  let ?r = "script_run (env_of (Inr (video_of [stream_empty]))) demo_url True False
      initial_session"
  have d: "download_data (sess ?r) = Some []"
    using run_transfer(1) [where url = demo_url and mp3_clicked = False and mp4_clicked = True
        and E = "env_of (Inr (video_of [stream_empty]))" and yt = "video_of [stream_empty]"
        and ss = "[stream_empty]" and st = stream_empty and x = None
        and buf = "[]" and s = initial_session]
    by (simp add: demo_url_nonempty demo_queries demo_transfers)
  have "reachable (sess ?r)"
    by (intro reachable.run reachable.start)
  moreover have "download_button_placeholder (ui ?r) = None"
    using run_button [of "env_of (Inr (video_of [stream_empty]))" demo_url True False
        initial_session] d
    by (simp add: truthy_def)
  ultimately show ?thesis using d by blast
qed

end
